theory Spec2Isabelle
  imports Main
begin

section \<open>Flow controller (flow.controller.ts)\<close>

subsection \<open>Data of the requests\<close>

type_synonym ApId = string

text \<open>
  The enums and entity types are imported by the controller from the shared package; the
  members and fields written here are the ones the controller names.
\<close>

datatype PrincipalType = USER | SERVICE

record Principal =
  principal_id :: ApId
  principal_type :: PrincipalType
  principal_projectId :: ApId

datatype Permission = READ_FLOW | WRITE_FLOW | UPDATE_FLOW_STATUS

text \<open>
  The operation kinds: the members of the enum that the controller names, which are the
  thirteen cases of the switch in \<open>assertUserHasPermissionToFlow\<close>. The parameter of that
  function has this type, and the body of the request is validated against the schema of
  the operation request before the handler runs.
\<close>

datatype FlowOperationType =
    LOCK_AND_PUBLISH
  | CHANGE_STATUS
  | ADD_ACTION
  | UPDATE_ACTION
  | DELETE_ACTION
  | LOCK_FLOW
  | CHANGE_FOLDER
  | CHANGE_NAME
  | MOVE_ACTION
  | IMPORT_FLOW
  | UPDATE_TRIGGER
  | DUPLICATE_ACTION
  | USE_AS_DRAFT

record FlowOperationRequest =
  op_type :: FlowOperationType
  op_request :: string

text \<open>
  \<open>updated\<close> is the timestamp of the version as \<open>dayjs\<close> reads it, in milliseconds since
  the epoch; a value outside the range of a date stands for a timestamp that \<open>dayjs\<close>
  cannot read (an invalid date).
\<close>

record FlowVersion =
  version_id :: ApId
  updatedBy :: "ApId option"
  updated :: int

record PopulatedFlow =
  flow_id :: ApId
  flow_projectId :: ApId
  version :: FlowVersion

record Project =
  project_id :: ApId
  ownerId :: ApId

type_synonym ProjectMemberRole = string

datatype ApplicationEventName = CREATED_FLOW | UPDATED_FLOW | DELETED_FLOW

record ApplicationEvent =
  event_action :: ApplicationEventName
  event_request :: "FlowOperationRequest option"
  event_flow :: PopulatedFlow
  event_userId :: ApId

record UpdateFlowRequest =
  req_principal :: Principal
  req_params_id :: ApId
  req_body :: FlowOperationRequest

record ListFlowsRequest =
  query_folderId :: "string option"
  query_cursor :: "string option"
  query_limit :: "int option"
  query_status :: "string list option"

record ListFlowsParams =
  list_projectId :: ApId
  list_folderId :: "string option"
  list_cursorRequest :: "string option"
  list_limit :: int
  list_status :: "string list option"

record SeekPage =
  page_data :: "PopulatedFlow list"
  page_next :: "string option"
  page_previous :: "string option"

subsection \<open>Errors, collaborators and effects\<close>

text \<open>
  A handler either returns or throws. \<open>FLOW_IN_USE\<close> is the one error the controller
  constructs (with the version id and the message); \<open>Thrown\<close> is an error of a
  collaborator, which the controller does not catch.
\<close>

datatype 'e ActivepiecesError =
    FLOW_IN_USE ApId string
  | Thrown 'e

text \<open>
  The services the controller delegates to are not part of the controller: they are the
  fields of this record, each a function that returns or throws; \<open>eventsHooks_send\<close> is
  \<open>eventsHooks.get().send\<close>, a synchronous call. \<open>dayjs_now\<close> is the value of the clock read
  by \<open>dayjs()\<close>, in milliseconds.
\<close>

record 'e collaborators =
  projectService_getOneOrThrow :: "ApId \<Rightarrow> 'e + Project"
  projectMemberService_getRole :: "ApId \<Rightarrow> ApId \<Rightarrow> 'e + ProjectMemberRole"
  assertRoleHasPermission :: "Principal \<Rightarrow> Permission \<Rightarrow> 'e + unit"
  flowService_getOnePopulatedOrThrow :: "ApId \<Rightarrow> ApId \<Rightarrow> 'e + PopulatedFlow"
  flowService_update :: "ApId \<Rightarrow> ApId option \<Rightarrow> ApId \<Rightarrow> FlowOperationRequest \<Rightarrow> 'e + PopulatedFlow"
  flowService_list :: "ListFlowsParams \<Rightarrow> 'e + SeekPage"
  eventsHooks_send :: "ApplicationEvent \<Rightarrow> 'e + unit"
  dayjs_now :: int

text \<open>The calls a handler makes, in the order it makes them, are its trace.\<close>

datatype effect =
    Call_projectService_getOneOrThrow ApId
  | Call_projectMemberService_getRole ApId ApId
  | Call_assertRoleHasPermission Principal Permission
  | Call_flowService_getOnePopulatedOrThrow ApId ApId
  | Call_eventsHooks_send ApplicationEvent
  | Call_flowService_update ApId "ApId option" ApId FlowOperationRequest
  | Call_flowService_list ListFlowsParams

type_synonym ('e, 'a) io = "effect list \<times> ('e ActivepiecesError + 'a)"

definition ret :: "'a \<Rightarrow> ('e, 'a) io" where
  "ret x = ([], Inr x)"

definition throw :: "'e ActivepiecesError \<Rightarrow> ('e, 'a) io" where
  "throw err = ([], Inl err)"

text \<open>Sequencing of two awaited steps: the second runs only when the first returned.\<close>

definition bnd :: "('e, 'a) io \<Rightarrow> ('a \<Rightarrow> ('e, 'b) io) \<Rightarrow> ('e, 'b) io" where
  "bnd m f =
     (case m of
        (t, Inl err) \<Rightarrow> (t, Inl err)
      | (t, Inr x) \<Rightarrow> (case f x of (t', r) \<Rightarrow> (t @ t', r)))"

definition call :: "effect \<Rightarrow> 'e + 'a \<Rightarrow> ('e, 'a) io" where
  "call c r = ([c], case r of Inl e \<Rightarrow> Inl (Thrown e) | Inr x \<Rightarrow> Inr x)"

text \<open>Some occurrence of \<open>a\<close> in the trace is followed, later, by \<open>b\<close>.\<close>

fun occurs_before :: "'a \<Rightarrow> 'a \<Rightarrow> 'a list \<Rightarrow> bool" where
  "occurs_before a b [] = False"
| "occurs_before a b (x # xs) = ((x = a \<and> b \<in> set xs) \<or> occurs_before a b xs)"

subsection \<open>The functions of the controller\<close>

definition DEFAULT_PAGE_SIZE :: int where
  "DEFAULT_PAGE_SIZE = 10"

text \<open>
  \<open>a.diff(b, 'minute')\<close> of the dayjs library, on two instants in milliseconds. For two
  valid dates it is the difference divided by the milliseconds of a minute and truncated
  towards zero (the library's \<open>absFloor\<close>: \<open>Math.ceil\<close> of a negative quotient,
  \<open>Math.floor\<close> otherwise). A date is valid within 8640000000000000 milliseconds of the
  epoch; with an invalid date the difference is \<open>NaN\<close>, here \<open>None\<close>, and every comparison
  with \<open>NaN\<close> is false.
\<close>

definition MILLISECONDS_A_MINUTE :: int where
  "MILLISECONDS_A_MINUTE = 60000"

definition MAX_DATE_MILLISECONDS :: int where
  "MAX_DATE_MILLISECONDS = 8640000000000000"

definition isValid :: "int \<Rightarrow> bool" where
  "isValid ms = (- MAX_DATE_MILLISECONDS \<le> ms \<and> ms \<le> MAX_DATE_MILLISECONDS)"

definition dayjs_diff_minute :: "int \<Rightarrow> int \<Rightarrow> int option" where
  "dayjs_diff_minute this that =
     (if isValid this \<and> isValid that then
        (let d = this - that
         in Some (if d < 0 then - ((- d) div MILLISECONDS_A_MINUTE) else d div MILLISECONDS_A_MINUTE))
      else None)"

definition extractUserIdFromPrincipal :: "'e collaborators \<Rightarrow> Principal \<Rightarrow> ('e, ApId) io" where
  "extractUserIdFromPrincipal env caller =
     (if principal_type caller = USER then ret (principal_id caller)
      else bnd (call (Call_projectService_getOneOrThrow (principal_projectId caller))
                  (projectService_getOneOrThrow env (principal_projectId caller)))
             (\<lambda>project. ret (ownerId project)))"

definition assertUserHasPermissionToFlow ::
  "'e collaborators \<Rightarrow> Principal \<Rightarrow> ApId \<Rightarrow> FlowOperationType \<Rightarrow> ('e, unit) io" where
  "assertUserHasPermissionToFlow env caller userId operationType =
     bnd (call (Call_projectMemberService_getRole (principal_projectId caller) userId)
            (projectMemberService_getRole env (principal_projectId caller) userId))
       (\<lambda>role.
          case operationType of
            LOCK_AND_PUBLISH \<Rightarrow>
              call (Call_assertRoleHasPermission caller UPDATE_FLOW_STATUS)
                (assertRoleHasPermission env caller UPDATE_FLOW_STATUS)
          | CHANGE_STATUS \<Rightarrow>
              call (Call_assertRoleHasPermission caller UPDATE_FLOW_STATUS)
                (assertRoleHasPermission env caller UPDATE_FLOW_STATUS)
          | ADD_ACTION \<Rightarrow>
              call (Call_assertRoleHasPermission caller WRITE_FLOW)
                (assertRoleHasPermission env caller WRITE_FLOW)
          | UPDATE_ACTION \<Rightarrow>
              call (Call_assertRoleHasPermission caller WRITE_FLOW)
                (assertRoleHasPermission env caller WRITE_FLOW)
          | DELETE_ACTION \<Rightarrow>
              call (Call_assertRoleHasPermission caller WRITE_FLOW)
                (assertRoleHasPermission env caller WRITE_FLOW)
          | LOCK_FLOW \<Rightarrow>
              call (Call_assertRoleHasPermission caller WRITE_FLOW)
                (assertRoleHasPermission env caller WRITE_FLOW)
          | CHANGE_FOLDER \<Rightarrow>
              call (Call_assertRoleHasPermission caller WRITE_FLOW)
                (assertRoleHasPermission env caller WRITE_FLOW)
          | CHANGE_NAME \<Rightarrow>
              call (Call_assertRoleHasPermission caller WRITE_FLOW)
                (assertRoleHasPermission env caller WRITE_FLOW)
          | MOVE_ACTION \<Rightarrow>
              call (Call_assertRoleHasPermission caller WRITE_FLOW)
                (assertRoleHasPermission env caller WRITE_FLOW)
          | IMPORT_FLOW \<Rightarrow>
              call (Call_assertRoleHasPermission caller WRITE_FLOW)
                (assertRoleHasPermission env caller WRITE_FLOW)
          | UPDATE_TRIGGER \<Rightarrow>
              call (Call_assertRoleHasPermission caller WRITE_FLOW)
                (assertRoleHasPermission env caller WRITE_FLOW)
          | DUPLICATE_ACTION \<Rightarrow>
              call (Call_assertRoleHasPermission caller WRITE_FLOW)
                (assertRoleHasPermission env caller WRITE_FLOW)
          | USE_AS_DRAFT \<Rightarrow>
              call (Call_assertRoleHasPermission caller WRITE_FLOW)
                (assertRoleHasPermission env caller WRITE_FLOW))"

definition FLOW_IN_USE_message :: string where
  "FLOW_IN_USE_message =
     ''Flow is being used by another user in the last minute. Please try again later.''"

definition assertThatFlowIsNotBeingUsed ::
  "'e collaborators \<Rightarrow> PopulatedFlow \<Rightarrow> ApId \<Rightarrow> ('e, unit) io" where
  "assertThatFlowIsNotBeingUsed env flow userId =
     (let currentTime = dayjs_now env
      in if updatedBy (version flow) \<noteq> None
            \<and> updatedBy (version flow) \<noteq> Some userId
            \<and> (case dayjs_diff_minute currentTime (updated (version flow)) of
                 None \<Rightarrow> False
               | Some minutes \<Rightarrow> minutes \<le> 1)
         then throw (FLOW_IN_USE (version_id (version flow)) FLOW_IN_USE_message)
         else ret ())"

text \<open>
  The handler of \<open>POST /:id\<close>. Its route options declare \<open>permission: WRITE_FLOW\<close>; what
  checks that option runs outside the handler and is not part of the controller.
\<close>

definition UpdateFlowRequestOptions_permission :: Permission where
  "UpdateFlowRequestOptions_permission = WRITE_FLOW"

definition updated_flow_event :: "UpdateFlowRequest \<Rightarrow> PopulatedFlow \<Rightarrow> ApplicationEvent" where
  "updated_flow_event request flow =
     \<lparr>event_action = UPDATED_FLOW,
      event_request = Some (req_body request),
      event_flow = flow,
      event_userId = principal_id (req_principal request)\<rparr>"

definition update_handler :: "'e collaborators \<Rightarrow> UpdateFlowRequest \<Rightarrow> ('e, PopulatedFlow) io" where
  "update_handler env request =
     bnd (extractUserIdFromPrincipal env (req_principal request)) (\<lambda>userId.
     bnd (assertUserHasPermissionToFlow env (req_principal request) userId
            (op_type (req_body request))) (\<lambda>_.
     bnd (call (Call_flowService_getOnePopulatedOrThrow (req_params_id request)
                  (principal_projectId (req_principal request)))
            (flowService_getOnePopulatedOrThrow env (req_params_id request)
               (principal_projectId (req_principal request)))) (\<lambda>flow.
     bnd (assertThatFlowIsNotBeingUsed env flow userId) (\<lambda>_.
     bnd (call (Call_eventsHooks_send (updated_flow_event request flow))
            (eventsHooks_send env (updated_flow_event request flow))) (\<lambda>_.
     call (Call_flowService_update (req_params_id request)
             (if principal_type (req_principal request) = SERVICE then None else Some userId)
             (principal_projectId (req_principal request))
             (req_body request))
       (flowService_update env (req_params_id request)
          (if principal_type (req_principal request) = SERVICE then None else Some userId)
          (principal_projectId (req_principal request))
          (req_body request)))))))"

text \<open>The handler of \<open>GET /\<close>: \<open>??\<close> replaces an absent cursor and an absent limit.\<close>

definition list_params :: "Principal \<Rightarrow> ListFlowsRequest \<Rightarrow> ListFlowsParams" where
  "list_params caller query =
     \<lparr>list_projectId = principal_projectId caller,
      list_folderId = query_folderId query,
      list_cursorRequest = query_cursor query,
      list_limit = (case query_limit query of None \<Rightarrow> DEFAULT_PAGE_SIZE | Some n \<Rightarrow> n),
      list_status = query_status query\<rparr>"

definition list_handler :: "'e collaborators \<Rightarrow> Principal \<Rightarrow> ListFlowsRequest \<Rightarrow> ('e, SeekPage) io" where
  "list_handler env caller query =
     call (Call_flowService_list (list_params caller query))
       (flowService_list env (list_params caller query))"

section \<open>Color picker (color-picker.tsx)\<close>

subsection \<open>State and handlers of the component\<close>

text \<open>
  The callbacks of the properties are optional, and a callback returns or throws: \<open>onSave\<close>
  is a function of the value, \<open>onClose\<close> is given by its outcome. An invocation of a
  callback is an entry of the log that a handler returns.
\<close>

record 'e ColorPickerProps =
  onClose :: "('e + unit) option"
  onSave :: "(string \<Rightarrow> 'e + unit) option"
  defaultValue :: "string option"

record ColorPickerState =
  color :: string
  savedColor :: string
  popover_open :: bool

datatype callback = OnSave string | OnClose

text \<open>\<open>defaultValue || '#FFFFFF'\<close>: an absent and an empty default both give white.\<close>

definition default_or_white :: "string option \<Rightarrow> string" where
  "default_or_white v = (case v of None \<Rightarrow> ''#FFFFFF'' | Some s \<Rightarrow> if s = [] then ''#FFFFFF'' else s)"

definition initial_state :: "'e ColorPickerProps \<Rightarrow> ColorPickerState" where
  "initial_state props =
     \<lparr>color = default_or_white (defaultValue props),
      savedColor = default_or_white (defaultValue props),
      popover_open = False\<rparr>"

text \<open>
  The handlers the component installs: the click on the trigger, its blur, the popover's
  \<open>onOpenChange\<close>, the \<open>onChange\<close> of the picker and of the text input, and the click on
  the confirm button.
\<close>

datatype ui_event =
    TriggerClick
  | TriggerBlur
  | PopoverOpenChange bool
  | PickerChange string
  | InputChange string
  | ConfirmClick

text \<open>
  The click on the confirm button runs \<open>onSave?.(color); setSavedColor(color);
  setOpen(false)\<close>: a callback that throws leaves the handler before the two updates of
  the state.
\<close>

definition confirm_onClick :: "'e ColorPickerProps \<Rightarrow> ColorPickerState \<Rightarrow> ColorPickerState \<times> callback list" where
  "confirm_onClick props s =
     (case onSave props of
        None \<Rightarrow> (s\<lparr>savedColor := color s, popover_open := False\<rparr>, [])
      | Some save \<Rightarrow>
          (case save (color s) of
             Inl err \<Rightarrow> (s, [OnSave (color s)])
           | Inr done \<Rightarrow> (s\<lparr>savedColor := color s, popover_open := False\<rparr>, [OnSave (color s)])))"

text \<open>The save callback is absent, or it returns on the value.\<close>

definition save_returns :: "'e ColorPickerProps \<Rightarrow> string \<Rightarrow> bool" where
  "save_returns props v =
     (case onSave props of
        None \<Rightarrow> True
      | Some save \<Rightarrow> (case save v of Inl err \<Rightarrow> False | Inr done \<Rightarrow> True))"

fun handle :: "'e ColorPickerProps \<Rightarrow> ui_event \<Rightarrow> ColorPickerState \<Rightarrow> ColorPickerState \<times> callback list" where
  "handle props TriggerClick s = (s\<lparr>popover_open := True\<rparr>, [])"
| "handle props TriggerBlur s = (s, case onClose props of None \<Rightarrow> [] | Some outcome \<Rightarrow> [OnClose])"
| "handle props (PopoverOpenChange b) s = (s\<lparr>popover_open := b\<rparr>, [])"
| "handle props (PickerChange v) s = (s\<lparr>color := v\<rparr>, [])"
| "handle props (InputChange v) s = (s\<lparr>color := v\<rparr>, [])"
| "handle props ConfirmClick s = confirm_onClick props s"

text \<open>A session of the component: the events in order, the log of callbacks accumulated.\<close>

fun run :: "'e ColorPickerProps \<Rightarrow> ui_event list \<Rightarrow> ColorPickerState \<times> callback list \<Rightarrow> ColorPickerState \<times> callback list" where
  "run props [] sl = sl"
| "run props (e # es) sl =
     (case handle props e (fst sl) of (s', l') \<Rightarrow> run props es (s', snd sl @ l'))"

subsection \<open>The contrast colour of the confirm button\<close>

text \<open>The value of two hex digits; \<open>None\<close> when one of them is not a hex digit.\<close>

definition hex_value :: "char \<Rightarrow> nat option" where
  "hex_value c =
     (let n = (of_char c :: nat)
      in if 48 \<le> n \<and> n \<le> 57 then Some (n - 48)
         else if 97 \<le> n \<and> n \<le> 102 then Some (n - 87)
         else if 65 \<le> n \<and> n \<le> 70 then Some (n - 55)
         else None)"

definition hex_byte :: "char \<Rightarrow> char \<Rightarrow> nat option" where
  "hex_byte h l =
     (case hex_value h of
        None \<Rightarrow> None
      | Some a \<Rightarrow> (case hex_value l of None \<Rightarrow> None | Some b \<Rightarrow> Some (16 * a + b)))"

text \<open>
  Modelled from the spec: the defaults of the package contrast-color (dark and light
  foreground, threshold and weights of the brightness), which the component imports and
  which is not among the source files.
\<close>

definition fgDarkColor :: string where
  "fgDarkColor = ''#000000''"

definition fgLightColor :: string where
  "fgLightColor = ''#FFFFFF''"

definition contrast_threshold :: nat where
  "contrast_threshold = 128"

definition brightness_times_1000 :: "nat \<Rightarrow> nat \<Rightarrow> nat \<Rightarrow> nat" where
  "brightness_times_1000 r g b = r * 299 + g * 587 + b * 114"

text \<open>
  Modelled from the spec: \<open>ContrastColor.contrastColor\<close> of the package contrast-color,
  which the component imports and which is not among the source files. The spec says
  that the foreground of the confirm control is computed by a contrast algorithm to
  remain legible against arbitrary backgrounds: the brightness of the background
  \<open>#RRGGBB\<close> is weighed (299, 587 and 114 per thousand of red, green and blue), a
  bright background gets the dark foreground and a dark one the light foreground. The
  model is of the backgrounds \<open>#RRGGBB\<close>, the form in which the picker gives a colour; what
  the package returns for another string is not modelled, and is \<open>None\<close> here.
\<close>

fun contrastColor :: "string \<Rightarrow> string option" where
  "contrastColor [hash, r1, r2, g1, g2, b1, b2] =
     (if hash = CHR ''#'' then
        (case hex_byte r1 r2 of
           None \<Rightarrow> None
         | Some r \<Rightarrow>
             (case hex_byte g1 g2 of
                None \<Rightarrow> None
              | Some g \<Rightarrow>
                  (case hex_byte b1 b2 of
                     None \<Rightarrow> None
                   | Some b \<Rightarrow>
                       Some (if contrast_threshold * 1000 \<le> brightness_times_1000 r g b
                             then fgDarkColor else fgLightColor))))
      else None)"
| "contrastColor bgColor = None"

record button_style =
  style_backgroundColor :: string
  style_color :: "string option"

definition confirm_button_style :: "ColorPickerState \<Rightarrow> button_style" where
  "confirm_button_style s =
     \<lparr>style_backgroundColor = color s, style_color = contrastColor (color s)\<rparr>"

section \<open>The permission table of the specification\<close>

text \<open>
  The table of the specification, row by row: lock-and-publish and change-status need
  the permission to update the flow status; add, update and delete action, lock, change
  folder, change name, move action, import, update trigger, duplicate action and
  use-as-draft need the permission to write the flow.
\<close>

fun spec_required_permission :: "FlowOperationType \<Rightarrow> Permission option" where
  "spec_required_permission LOCK_AND_PUBLISH = Some UPDATE_FLOW_STATUS"
| "spec_required_permission CHANGE_STATUS = Some UPDATE_FLOW_STATUS"
| "spec_required_permission ADD_ACTION = Some WRITE_FLOW"
| "spec_required_permission UPDATE_ACTION = Some WRITE_FLOW"
| "spec_required_permission DELETE_ACTION = Some WRITE_FLOW"
| "spec_required_permission LOCK_FLOW = Some WRITE_FLOW"
| "spec_required_permission CHANGE_FOLDER = Some WRITE_FLOW"
| "spec_required_permission CHANGE_NAME = Some WRITE_FLOW"
| "spec_required_permission MOVE_ACTION = Some WRITE_FLOW"
| "spec_required_permission IMPORT_FLOW = Some WRITE_FLOW"
| "spec_required_permission UPDATE_TRIGGER = Some WRITE_FLOW"
| "spec_required_permission DUPLICATE_ACTION = Some WRITE_FLOW"
| "spec_required_permission USE_AS_DRAFT = Some WRITE_FLOW"

section \<open>Sample principals, flows, collaborators and picker props\<close>

definition user_alice :: Principal where
  "user_alice =
     \<lparr>principal_id = ''alice'', principal_type = USER, principal_projectId = ''project-1''\<rparr>"

definition service_key :: Principal where
  "service_key =
     \<lparr>principal_id = ''api-key-1'', principal_type = SERVICE, principal_projectId = ''project-1''\<rparr>"

definition flow_edited_by_bob :: PopulatedFlow where
  "flow_edited_by_bob =
     \<lparr>flow_id = ''flow-1'', flow_projectId = ''project-1'',
      version = \<lparr>version_id = ''version-1'', updatedBy = Some ''bob'', updated = 0\<rparr>\<rparr>"

definition grant_all :: "Principal \<Rightarrow> Permission \<Rightarrow> string + unit" where
  "grant_all caller perm = Inr ()"

definition deny_all :: "Principal \<Rightarrow> Permission \<Rightarrow> string + unit" where
  "deny_all caller perm = Inl ''PERMISSION_DENIED''"

text \<open>
  A project owned by \<open>owner\<close>, whose role is the first argument; one stored flow, last
  edited by bob at instant 0; a list service that returns at most \<open>limit\<close> of 25 flows;
  an event hook that returns; the permission utility, the result of the update and the
  clock are arguments.
\<close>

definition sample_env ::
  "ProjectMemberRole \<Rightarrow> (Principal \<Rightarrow> Permission \<Rightarrow> string + unit) \<Rightarrow> (string + PopulatedFlow)
     \<Rightarrow> int \<Rightarrow> string collaborators" where
  "sample_env ownerRole rbac updateResult now =
     \<lparr>projectService_getOneOrThrow = (\<lambda>pid. Inr \<lparr>project_id = pid, ownerId = ''owner''\<rparr>),
      projectMemberService_getRole =
        (\<lambda>pid uid. if uid = ''owner'' then Inr ownerRole else Inr ''EDITOR''),
      assertRoleHasPermission = rbac,
      flowService_getOnePopulatedOrThrow = (\<lambda>fid pid. Inr flow_edited_by_bob),
      flowService_update = (\<lambda>fid uid pid operation. updateResult),
      flowService_list =
        (\<lambda>params. Inr \<lparr>page_data = take (nat (list_limit params)) (replicate 25 flow_edited_by_bob),
                         page_next = None, page_previous = None\<rparr>),
      eventsHooks_send = (\<lambda>event. Inr ()),
      dayjs_now = now\<rparr>"

definition rename_request :: "Principal \<Rightarrow> UpdateFlowRequest" where
  "rename_request caller =
     \<lparr>req_principal = caller, req_params_id = ''flow-1'',
      req_body = \<lparr>op_type = CHANGE_NAME, op_request = ''displayName''\<rparr>\<rparr>"

definition publish_request :: "Principal \<Rightarrow> UpdateFlowRequest" where
  "publish_request caller =
     \<lparr>req_principal = caller, req_params_id = ''flow-1'',
      req_body = \<lparr>op_type = LOCK_AND_PUBLISH, op_request = ''''\<rparr>\<rparr>"

definition query_without_limit :: ListFlowsRequest where
  "query_without_limit =
     \<lparr>query_folderId = None, query_cursor = None, query_limit = None, query_status = None\<rparr>"

definition white_picker_props :: "string ColorPickerProps" where
  "white_picker_props =
     \<lparr>onClose = Some (Inr ()), onSave = Some (\<lambda>v. Inr ()), defaultValue = None\<rparr>"

definition failing_save_props :: "string ColorPickerProps" where
  "failing_save_props =
     \<lparr>onClose = None, onSave = Some (\<lambda>v. Inl ''save failed''), defaultValue = None\<rparr>"

definition bare_picker_props :: "string ColorPickerProps" where
  "bare_picker_props = \<lparr>onClose = None, onSave = None, defaultValue = None\<rparr>"

definition picker_showing :: ColorPickerState where
  "picker_showing = \<lparr>color = ''#12AB34'', savedColor = ''#FFFFFF'', popover_open = True\<rparr>"

section \<open>Properties of the flow controller\<close>

subsection \<open>The steps of the update handler, in normal form\<close>

lemmas io_defs = ret_def throw_def bnd_def call_def

lemmas date_defs = dayjs_diff_minute_def isValid_def MAX_DATE_MILLISECONDS_def
  MILLISECONDS_A_MINUTE_def

lemmas sample_defs = sample_env_def flow_edited_by_bob_def user_alice_def service_key_def
  grant_all_def deny_all_def rename_request_def publish_request_def

lemma spec_table_total: "\<exists>perm. spec_required_permission k = Some perm"
  by (cases k) simp_all

lemma permission_step:
  "assertUserHasPermissionToFlow env caller userId k =
     bnd (call (Call_projectMemberService_getRole (principal_projectId caller) userId)
            (projectMemberService_getRole env (principal_projectId caller) userId))
       (\<lambda>role. case spec_required_permission k of
                  None \<Rightarrow> ret ()
                | Some perm \<Rightarrow> call (Call_assertRoleHasPermission caller perm)
                                (assertRoleHasPermission env caller perm))"
  by (cases k) (simp_all add: assertUserHasPermissionToFlow_def)

lemma permission_step_Some:
  "spec_required_permission k = Some perm \<Longrightarrow>
   assertUserHasPermissionToFlow env caller userId k =
     (case projectMemberService_getRole env (principal_projectId caller) userId of
        Inl e \<Rightarrow> ([Call_projectMemberService_getRole (principal_projectId caller) userId], Inl (Thrown e))
      | Inr role \<Rightarrow>
          ([Call_projectMemberService_getRole (principal_projectId caller) userId,
            Call_assertRoleHasPermission caller perm],
           case assertRoleHasPermission env caller perm of
             Inl e \<Rightarrow> Inl (Thrown e) | Inr x \<Rightarrow> Inr x))"
  by (simp add: permission_step io_defs split: sum.splits)

lemma extract_cases:
  "extractUserIdFromPrincipal env caller =
     (if principal_type caller = USER then ([], Inr (principal_id caller))
      else ([Call_projectService_getOneOrThrow (principal_projectId caller)],
            case projectService_getOneOrThrow env (principal_projectId caller) of
              Inl e \<Rightarrow> Inl (Thrown e) | Inr project \<Rightarrow> Inr (ownerId project)))"
  by (simp add: extractUserIdFromPrincipal_def io_defs split: sum.splits)

lemma guard_trace: "fst (assertThatFlowIsNotBeingUsed env flow userId) = []"
  by (simp add: assertThatFlowIsNotBeingUsed_def Let_def io_defs)

lemma update_handler_unfold:
  "update_handler env request =
     (case extractUserIdFromPrincipal env (req_principal request) of
        (t1, Inl e) \<Rightarrow> (t1, Inl e)
      | (t1, Inr u) \<Rightarrow>
          (case assertUserHasPermissionToFlow env (req_principal request) u (op_type (req_body request)) of
             (t2, Inl e) \<Rightarrow> (t1 @ t2, Inl e)
           | (t2, Inr x) \<Rightarrow>
               (case flowService_getOnePopulatedOrThrow env (req_params_id request)
                       (principal_projectId (req_principal request)) of
                  Inl e \<Rightarrow>
                    (t1 @ t2 @ [Call_flowService_getOnePopulatedOrThrow (req_params_id request)
                                  (principal_projectId (req_principal request))], Inl (Thrown e))
                | Inr flow \<Rightarrow>
                    (case snd (assertThatFlowIsNotBeingUsed env flow u) of
                       Inl e \<Rightarrow>
                         (t1 @ t2 @ [Call_flowService_getOnePopulatedOrThrow (req_params_id request)
                                       (principal_projectId (req_principal request))], Inl e)
                     | Inr y \<Rightarrow>
                         (case eventsHooks_send env (updated_flow_event request flow) of
                            Inl e \<Rightarrow>
                              (t1 @ t2 @
                               [Call_flowService_getOnePopulatedOrThrow (req_params_id request)
                                  (principal_projectId (req_principal request)),
                                Call_eventsHooks_send (updated_flow_event request flow)],
                               Inl (Thrown e))
                          | Inr z \<Rightarrow>
                              (t1 @ t2 @
                               [Call_flowService_getOnePopulatedOrThrow (req_params_id request)
                                  (principal_projectId (req_principal request)),
                                Call_eventsHooks_send (updated_flow_event request flow),
                                Call_flowService_update (req_params_id request)
                                  (if principal_type (req_principal request) = SERVICE then None else Some u)
                                  (principal_projectId (req_principal request)) (req_body request)],
                               case flowService_update env (req_params_id request)
                                      (if principal_type (req_principal request) = SERVICE then None else Some u)
                                      (principal_projectId (req_principal request)) (req_body request) of
                                 Inl e \<Rightarrow> Inl (Thrown e) | Inr f \<Rightarrow> Inr f))))))"
proof -
  have g: "\<And>flow u. assertThatFlowIsNotBeingUsed env flow u =
      ([], snd (assertThatFlowIsNotBeingUsed env flow u))"
    by (metis guard_trace prod.collapse)
  show ?thesis
    unfolding update_handler_def
    apply (subst g)
    apply (simp add: io_defs split: prod.splits sum.splits)
    done
qed

subsection \<open>The conflict guard\<close>

text \<open>
  When the version was last updated by another user and both dates are valid, the guard
  throws exactly while fewer than two full minutes have passed: the truncated difference
  in minutes is then 0 or 1.
\<close>

lemma guard_other_user:
  "updatedBy (version flow) = Some u \<Longrightarrow> u \<noteq> userId \<Longrightarrow>
   isValid (dayjs_now env) \<Longrightarrow> isValid (updated (version flow)) \<Longrightarrow>
   assertThatFlowIsNotBeingUsed env flow userId =
     (if dayjs_now env - updated (version flow) < 120000
      then throw (FLOW_IN_USE (version_id (version flow)) FLOW_IN_USE_message)
      else ret ())"
  by (auto simp: assertThatFlowIsNotBeingUsed_def dayjs_diff_minute_def
      MILLISECONDS_A_MINUTE_def Let_def)

text \<open>
  C1: an update by another user more than 60 seconds after the version's \<open>updated\<close>
  timestamp is claimed to pass the conflict guard. Here alice renames the flow 90 seconds
  after bob's edit: more than 60 seconds have passed, the guard throws the flow-in-use
  error with the version id, and so does the handler.
\<close>

theorem flow_in_use_thrown_90_seconds_after_edit:
  "60000 < dayjs_now (sample_env ''ADMIN'' grant_all (Inr flow_edited_by_bob) 90000)
             - updated (version flow_edited_by_bob)
   \<and> assertThatFlowIsNotBeingUsed (sample_env ''ADMIN'' grant_all (Inr flow_edited_by_bob) 90000)
        flow_edited_by_bob ''alice''
      = throw (FLOW_IN_USE ''version-1'' FLOW_IN_USE_message)
   \<and> snd (update_handler (sample_env ''ADMIN'' grant_all (Inr flow_edited_by_bob) 90000)
        (rename_request user_alice))
      = Inl (FLOW_IN_USE ''version-1'' FLOW_IN_USE_message)"
  by (simp add: update_handler_unfold extract_cases permission_step_Some
      assertThatFlowIsNotBeingUsed_def date_defs Let_def io_defs sample_defs)

subsection \<open>The permission step of a service principal\<close>


subsection \<open>Where the update occurs in the trace\<close>

lemma extract_trace_no_update:
  "Call_flowService_update a b c d \<notin> set (fst (extractUserIdFromPrincipal env caller))"
  by (simp add: extract_cases)

lemma permission_trace_no_update:
  "Call_flowService_update a b c d \<notin> set (fst (assertUserHasPermissionToFlow env caller u k))"
proof -
  obtain perm where "spec_required_permission k = Some perm"
    using spec_table_total by blast
  then show ?thesis
    by (simp add: permission_step_Some split: sum.splits)
qed

lemma update_in_trace:
  assumes "Call_flowService_update a b c d \<in> set (fst (update_handler env request))"
  shows "\<exists>t1 u t2 flow.
      extractUserIdFromPrincipal env (req_principal request) = (t1, Inr u)
    \<and> assertUserHasPermissionToFlow env (req_principal request) u (op_type (req_body request)) = (t2, Inr ())
    \<and> flowService_getOnePopulatedOrThrow env (req_params_id request)
         (principal_projectId (req_principal request)) = Inr flow
    \<and> assertThatFlowIsNotBeingUsed env flow u = ret ()
    \<and> eventsHooks_send env (updated_flow_event request flow) = Inr ()
    \<and> Call_flowService_update a b c d =
        Call_flowService_update (req_params_id request)
          (if principal_type (req_principal request) = SERVICE then None else Some u)
          (principal_projectId (req_principal request)) (req_body request)
    \<and> fst (update_handler env request) =
        t1 @ t2 @ [Call_flowService_getOnePopulatedOrThrow (req_params_id request)
                     (principal_projectId (req_principal request)),
                   Call_eventsHooks_send (updated_flow_event request flow),
                   Call_flowService_update a b c d]"
proof -
  obtain t1 r1 where e: "extractUserIdFromPrincipal env (req_principal request) = (t1, r1)"
    by (cases "extractUserIdFromPrincipal env (req_principal request)")
  have n1: "Call_flowService_update a b c d \<notin> set t1"
    using extract_trace_no_update [of a b c d env "req_principal request"] e by simp
  show ?thesis
  proof (cases r1)
    case (Inl err)
    with assms e n1 show ?thesis by (simp add: update_handler_unfold)
  next
    case u: (Inr u)
    obtain t2 r2 where p: "assertUserHasPermissionToFlow env (req_principal request) u
        (op_type (req_body request)) = (t2, r2)"
      by (cases "assertUserHasPermissionToFlow env (req_principal request) u (op_type (req_body request))")
    have n2: "Call_flowService_update a b c d \<notin> set t2"
      using permission_trace_no_update [of a b c d env "req_principal request" u
          "op_type (req_body request)"] p by simp
    show ?thesis
    proof (cases r2)
      case (Inl err)
      with assms e u p n1 n2 show ?thesis by (simp add: update_handler_unfold)
    next
      case x: (Inr x)
      show ?thesis
      proof (cases "flowService_getOnePopulatedOrThrow env (req_params_id request)
                      (principal_projectId (req_principal request))")
        case (Inl err)
        with assms e u p x n1 n2 show ?thesis by (simp add: update_handler_unfold)
      next
        case f: (Inr flow)
        show ?thesis
        proof (cases "snd (assertThatFlowIsNotBeingUsed env flow u)")
          case (Inl err)
          with assms e u p x f n1 n2 show ?thesis by (simp add: update_handler_unfold)
        next
          case y: (Inr y)
          have g: "assertThatFlowIsNotBeingUsed env flow u = ret ()"
            using y guard_trace [of env flow u]
            by (cases "assertThatFlowIsNotBeingUsed env flow u") (simp add: ret_def)
          show ?thesis
          proof (cases "eventsHooks_send env (updated_flow_event request flow)")
            case (Inl err)
            with assms e u p x f y n1 n2 show ?thesis by (simp add: update_handler_unfold)
          next
            case z: (Inr z)
            from assms e u p x f y z n1 n2
            have c: "Call_flowService_update a b c d =
                Call_flowService_update (req_params_id request)
                  (if principal_type (req_principal request) = SERVICE then None else Some u)
                  (principal_projectId (req_principal request)) (req_body request)"
              by (simp add: update_handler_unfold)
            from e u p x f y z
            have "fst (update_handler env request) =
              t1 @ t2 @ [Call_flowService_getOnePopulatedOrThrow (req_params_id request)
                       (principal_projectId (req_principal request)),
                     Call_eventsHooks_send (updated_flow_event request flow),
                     Call_flowService_update (req_params_id request)
                       (if principal_type (req_principal request) = SERVICE then None else Some u)
                       (principal_projectId (req_principal request)) (req_body request)]"
              by (simp add: update_handler_unfold)
            with c have "fst (update_handler env request) =
              t1 @ t2 @ [Call_flowService_getOnePopulatedOrThrow (req_params_id request)
                       (principal_projectId (req_principal request)),
                     Call_eventsHooks_send (updated_flow_event request flow),
                     Call_flowService_update a b c d]"
              by simp
            with c show ?thesis
              using e u p x f g z by simp
          qed
        qed
      qed
    qed
  qed
qed

lemma occurs_before_mid:
  "b \<in> set zs \<Longrightarrow> occurs_before a b (xs @ a # zs)"
  by (induction xs) simp_all

lemma update_needs_assertion:
  assumes p: "spec_required_permission (op_type (req_body request)) = Some perm"
    and u: "Call_flowService_update a b c d \<in> set (fst (update_handler env request))"
  shows "assertRoleHasPermission env (req_principal request) perm = Inr ()
    \<and> occurs_before (Call_assertRoleHasPermission (req_principal request) perm)
        (Call_flowService_update a b c d) (fst (update_handler env request))"
proof -
  from u obtain t1 u t2 flow where
      s: "assertUserHasPermissionToFlow env (req_principal request) u (op_type (req_body request)) = (t2, Inr ())"
    and t: "fst (update_handler env request) =
        t1 @ t2 @ [Call_flowService_getOnePopulatedOrThrow (req_params_id request)
                     (principal_projectId (req_principal request)),
                   Call_eventsHooks_send (updated_flow_event request flow),
                   Call_flowService_update a b c d]"
    using update_in_trace [of a b c d env request] by blast
  from s have t2: "t2 = [Call_projectMemberService_getRole (principal_projectId (req_principal request)) u,
        Call_assertRoleHasPermission (req_principal request) perm]"
    and ok: "assertRoleHasPermission env (req_principal request) perm = Inr ()"
    by (auto simp: permission_step_Some [OF p] split: sum.splits)
  have "occurs_before (Call_assertRoleHasPermission (req_principal request) perm)
      (Call_flowService_update a b c d)
      ((t1 @ [Call_projectMemberService_getRole (principal_projectId (req_principal request)) u]) @
        Call_assertRoleHasPermission (req_principal request) perm #
        [Call_flowService_getOnePopulatedOrThrow (req_params_id request)
                     (principal_projectId (req_principal request)),
                   Call_eventsHooks_send (updated_flow_event request flow),
                   Call_flowService_update a b c d])"
    by (rule occurs_before_mid) simp
  then have "occurs_before (Call_assertRoleHasPermission (req_principal request) perm)
             (Call_flowService_update a b c d) (fst (update_handler env request))"
    by (simp add: t t2)
  with ok show ?thesis by simp
qed


subsection \<open>Permission before the update\<close>



text \<open>
  C4: for a kind in the table, the permission step of the handler is the role lookup
  followed by the assertion of the permission that the table gives for the kind
  (update-flow-status for lock-and-publish and change-status, write-flow for the eleven
  others); and whenever the handler calls the update of the flow service, that assertion
  was invoked earlier in the same run, on the request's principal, and returned.
\<close>

theorem required_permission_asserted_before_update:
  "spec_required_permission (op_type (req_body request)) = Some perm \<Longrightarrow>
     assertUserHasPermissionToFlow env caller userId (op_type (req_body request)) =
       bnd (call (Call_projectMemberService_getRole (principal_projectId caller) userId)
              (projectMemberService_getRole env (principal_projectId caller) userId))
         (\<lambda>role. call (Call_assertRoleHasPermission caller perm)
                    (assertRoleHasPermission env caller perm))
   \<and> (\<forall>a b c d. Call_flowService_update a b c d \<in> set (fst (update_handler env request)) \<longrightarrow>
         assertRoleHasPermission env (req_principal request) perm = Inr ()
         \<and> occurs_before (Call_assertRoleHasPermission (req_principal request) perm)
             (Call_flowService_update a b c d) (fst (update_handler env request)))"
proof (intro conjI allI impI)
  assume p: "spec_required_permission (op_type (req_body request)) = Some perm"
  show "assertUserHasPermissionToFlow env caller userId (op_type (req_body request)) =
       bnd (call (Call_projectMemberService_getRole (principal_projectId caller) userId)
              (projectMemberService_getRole env (principal_projectId caller) userId))
         (\<lambda>role. call (Call_assertRoleHasPermission caller perm)
                    (assertRoleHasPermission env caller perm))"
    by (simp add: permission_step p)
next
  fix a b c d
  assume p: "spec_required_permission (op_type (req_body request)) = Some perm"
    and u: "Call_flowService_update a b c d \<in> set (fst (update_handler env request))"
  from update_needs_assertion [OF p u]
  show "assertRoleHasPermission env (req_principal request) perm = Inr ()"
    and "occurs_before (Call_assertRoleHasPermission (req_principal request) perm)
             (Call_flowService_update a b c d) (fst (update_handler env request))"
    by simp_all
qed

text \<open>Witness of C4: alice renames the flow five minutes after bob's edit.\<close>

theorem required_permission_asserted_before_update_witness:
  "spec_required_permission (op_type (req_body (rename_request user_alice))) = Some WRITE_FLOW
   \<and> Call_flowService_update ''flow-1'' (Some ''alice'') ''project-1''
        \<lparr>op_type = CHANGE_NAME, op_request = ''displayName''\<rparr>
      \<in> set (fst (update_handler (sample_env ''ADMIN'' grant_all (Inr flow_edited_by_bob) 300000)
                    (rename_request user_alice)))
   \<and> occurs_before (Call_assertRoleHasPermission user_alice WRITE_FLOW)
        (Call_flowService_update ''flow-1'' (Some ''alice'') ''project-1''
          \<lparr>op_type = CHANGE_NAME, op_request = ''displayName''\<rparr>)
        (fst (update_handler (sample_env ''ADMIN'' grant_all (Inr flow_edited_by_bob) 300000)
               (rename_request user_alice)))"
proof -
  have k: "spec_required_permission (op_type (req_body (rename_request user_alice))) = Some WRITE_FLOW"
    by (simp add: rename_request_def)
  have m: "Call_flowService_update ''flow-1'' (Some ''alice'') ''project-1''
        \<lparr>op_type = CHANGE_NAME, op_request = ''displayName''\<rparr>
      \<in> set (fst (update_handler (sample_env ''ADMIN'' grant_all (Inr flow_edited_by_bob) 300000)
                    (rename_request user_alice)))"
    by (simp add: update_handler_unfold extract_cases permission_step_Some
      assertThatFlowIsNotBeingUsed_def date_defs Let_def io_defs sample_defs)
  from required_permission_asserted_before_update [OF k,
      of "sample_env ''ADMIN'' grant_all (Inr flow_edited_by_bob) 300000" user_alice "''alice''"] m
  have "occurs_before (Call_assertRoleHasPermission (req_principal (rename_request user_alice)) WRITE_FLOW)
        (Call_flowService_update ''flow-1'' (Some ''alice'') ''project-1''
          \<lparr>op_type = CHANGE_NAME, op_request = ''displayName''\<rparr>)
        (fst (update_handler (sample_env ''ADMIN'' grant_all (Inr flow_edited_by_bob) 300000)
               (rename_request user_alice)))"
    by blast
  then show ?thesis using k m by (simp add: rename_request_def)
qed

subsection \<open>The event and the mutation\<close>

text \<open>
  C6: in a request that passes the resolution of the user, the permission step, the
  lookup of the flow and the conflict guard, the handler sends the \<open>UPDATED_FLOW\<close> event
  and, when the send returns, calls the update of the flow service and returns its result.
  So the send is in the trace of every such request, also when the update throws, and
  every call of the update has the send before it.
\<close>

theorem updated_event_emitted_before_update:
  "extractUserIdFromPrincipal env (req_principal request) = (t1, Inr userId) \<Longrightarrow>
   assertUserHasPermissionToFlow env (req_principal request) userId (op_type (req_body request))
     = (t2, Inr ()) \<Longrightarrow>
   flowService_getOnePopulatedOrThrow env (req_params_id request)
     (principal_projectId (req_principal request)) = Inr flow \<Longrightarrow>
   assertThatFlowIsNotBeingUsed env flow userId = ret () \<Longrightarrow>
     fst (update_handler env request) =
       t1 @ t2 @
       [Call_flowService_getOnePopulatedOrThrow (req_params_id request)
          (principal_projectId (req_principal request)),
        Call_eventsHooks_send (updated_flow_event request flow)] @
       (case eventsHooks_send env (updated_flow_event request flow) of
          Inl e \<Rightarrow> []
        | Inr sent \<Rightarrow>
            [Call_flowService_update (req_params_id request)
               (if principal_type (req_principal request) = SERVICE then None else Some userId)
               (principal_projectId (req_principal request)) (req_body request)])
   \<and> snd (update_handler env request) =
       (case eventsHooks_send env (updated_flow_event request flow) of
          Inl e \<Rightarrow> Inl (Thrown e)
        | Inr sent \<Rightarrow>
            (case flowService_update env (req_params_id request)
                    (if principal_type (req_principal request) = SERVICE then None else Some userId)
                    (principal_projectId (req_principal request)) (req_body request) of
               Inl e \<Rightarrow> Inl (Thrown e) | Inr f \<Rightarrow> Inr f))
   \<and> Call_eventsHooks_send (updated_flow_event request flow) \<in> set (fst (update_handler env request))
   \<and> (\<forall>a b c d. Call_flowService_update a b c d \<in> set (fst (update_handler env request)) \<longrightarrow>
         occurs_before (Call_eventsHooks_send (updated_flow_event request flow))
           (Call_flowService_update a b c d) (fst (update_handler env request)))
   \<and> event_action (updated_flow_event request flow) = UPDATED_FLOW"
proof -
  assume e: "extractUserIdFromPrincipal env (req_principal request) = (t1, Inr userId)"
    and p: "assertUserHasPermissionToFlow env (req_principal request) userId (op_type (req_body request))
     = (t2, Inr ())"
    and f: "flowService_getOnePopulatedOrThrow env (req_params_id request)
     (principal_projectId (req_principal request)) = Inr flow"
    and g: "assertThatFlowIsNotBeingUsed env flow userId = ret ()"
  let ?G = "Call_flowService_getOnePopulatedOrThrow (req_params_id request)
          (principal_projectId (req_principal request))"
  let ?S = "Call_eventsHooks_send (updated_flow_event request flow)"
  let ?U = "Call_flowService_update (req_params_id request)
               (if principal_type (req_principal request) = SERVICE then None else Some userId)
               (principal_projectId (req_principal request)) (req_body request)"
  have h: "update_handler env request =
      (t1 @ t2 @ [?G, ?S] @
         (case eventsHooks_send env (updated_flow_event request flow) of
            Inl e \<Rightarrow> [] | Inr sent \<Rightarrow> [?U]),
       case eventsHooks_send env (updated_flow_event request flow) of
          Inl e \<Rightarrow> Inl (Thrown e)
        | Inr sent \<Rightarrow>
            (case flowService_update env (req_params_id request)
                    (if principal_type (req_principal request) = SERVICE then None else Some userId)
                    (principal_projectId (req_principal request)) (req_body request) of
               Inl e \<Rightarrow> Inl (Thrown e) | Inr f \<Rightarrow> Inr f))"
    by (simp add: update_handler_unfold e p f g ret_def split: sum.splits)
  have n1: "Call_flowService_update a b c d \<notin> set t1" for a b c d
    using extract_trace_no_update [of a b c d env "req_principal request"] e by simp
  have n2: "Call_flowService_update a b c d \<notin> set t2" for a b c d
    using permission_trace_no_update [of a b c d env "req_principal request" userId
        "op_type (req_body request)"] p by simp
  have before: "occurs_before ?S (Call_flowService_update a b c d) (fst (update_handler env request))"
    if u: "Call_flowService_update a b c d \<in> set (fst (update_handler env request))" for a b c d
  proof (cases "eventsHooks_send env (updated_flow_event request flow)")
    case (Inl err)
    with u h n1 n2 show ?thesis by simp
  next
    case (Inr sent)
    with u h n1 n2 have c: "Call_flowService_update a b c d = ?U"
      by auto
    have "occurs_before ?S ?U ((t1 @ t2 @ [?G]) @ ?S # [?U])"
      by (rule occurs_before_mid) simp
    with Inr h c show ?thesis by simp
  qed
  have sent: "?S \<in> set (fst (update_handler env request))"
    by (simp add: h)
  from h before sent show ?thesis
    by (simp add: updated_flow_event_def)
qed

text \<open>
  Witness of C6: alice renames the flow; the update of the flow service throws, and the
  event was sent before it.
\<close>

theorem updated_event_emitted_before_update_witness:
  "update_handler (sample_env ''ADMIN'' grant_all (Inl ''update failed'') 300000) (rename_request user_alice)
     = ([Call_projectMemberService_getRole ''project-1'' ''alice'',
         Call_assertRoleHasPermission user_alice WRITE_FLOW,
         Call_flowService_getOnePopulatedOrThrow ''flow-1'' ''project-1'',
         Call_eventsHooks_send (updated_flow_event (rename_request user_alice) flow_edited_by_bob),
         Call_flowService_update ''flow-1'' (Some ''alice'') ''project-1''
           \<lparr>op_type = CHANGE_NAME, op_request = ''displayName''\<rparr>],
        Inl (Thrown ''update failed''))
   \<and> occurs_before (Call_eventsHooks_send (updated_flow_event (rename_request user_alice) flow_edited_by_bob))
        (Call_flowService_update ''flow-1'' (Some ''alice'') ''project-1''
           \<lparr>op_type = CHANGE_NAME, op_request = ''displayName''\<rparr>)
        (fst (update_handler (sample_env ''ADMIN'' grant_all (Inl ''update failed'') 300000)
               (rename_request user_alice)))"
proof -
  let ?env = "sample_env ''ADMIN'' grant_all (Inl ''update failed'') 300000 :: string collaborators"
  let ?U = "Call_flowService_update ''flow-1'' (Some ''alice'') ''project-1''
           \<lparr>op_type = CHANGE_NAME, op_request = ''displayName''\<rparr>"
  have e: "extractUserIdFromPrincipal ?env (req_principal (rename_request user_alice)) = ([], Inr ''alice'')"
    by (simp add: extract_cases sample_defs)
  have p: "assertUserHasPermissionToFlow ?env (req_principal (rename_request user_alice)) ''alice''
      (op_type (req_body (rename_request user_alice)))
     = ([Call_projectMemberService_getRole ''project-1'' ''alice'',
         Call_assertRoleHasPermission user_alice WRITE_FLOW], Inr ())"
    by (simp add: permission_step_Some sample_defs)
  have f: "flowService_getOnePopulatedOrThrow ?env (req_params_id (rename_request user_alice))
     (principal_projectId (req_principal (rename_request user_alice))) = Inr flow_edited_by_bob"
    by (simp add: sample_env_def)
  have g: "assertThatFlowIsNotBeingUsed ?env flow_edited_by_bob ''alice'' = ret ()"
    by (simp add: assertThatFlowIsNotBeingUsed_def date_defs Let_def sample_env_def
        flow_edited_by_bob_def)
  have u: "flowService_update ?env a b c d = Inl ''update failed''" for a b c d
    by (simp add: sample_env_def)
  have s: "eventsHooks_send ?env ev = Inr ()" for ev
    by (simp add: sample_env_def)
  note w = updated_event_emitted_before_update [OF e p f g]
  from w have t: "fst (update_handler ?env (rename_request user_alice)) =
      [Call_projectMemberService_getRole ''project-1'' ''alice'',
       Call_assertRoleHasPermission user_alice WRITE_FLOW,
       Call_flowService_getOnePopulatedOrThrow ''flow-1'' ''project-1'',
       Call_eventsHooks_send (updated_flow_event (rename_request user_alice) flow_edited_by_bob),
       ?U]"
    by (simp add: s rename_request_def user_alice_def)
  from w have r: "snd (update_handler ?env (rename_request user_alice)) = Inl (Thrown ''update failed'')"
    by (simp add: s u)
  have "?U \<in> set (fst (update_handler ?env (rename_request user_alice)))"
    by (simp add: t)
  with w have "occurs_before
      (Call_eventsHooks_send (updated_flow_event (rename_request user_alice) flow_edited_by_bob))
      ?U (fst (update_handler ?env (rename_request user_alice)))"
    by blast
  with t r show ?thesis
    by (cases "update_handler ?env (rename_request user_alice)") simp
qed

subsection \<open>The list handler\<close>

text \<open>
  C5: the list handler makes one call, the list of the flow service, and returns what it
  returns; the limit it passes is 10 when the query has no limit and the query's limit,
  unchanged, otherwise. So when the service returns at most \<open>limit\<close> items, the page of a
  request without a limit has at most 10 items.
\<close>

theorem list_uses_default_page_size:
  "fst (list_handler env caller query) = [Call_flowService_list (list_params caller query)]
   \<and> snd (list_handler env caller query) =
       (case flowService_list env (list_params caller query) of
          Inl e \<Rightarrow> Inl (Thrown e) | Inr page \<Rightarrow> Inr page)
   \<and> list_limit (list_params caller query) = (case query_limit query of None \<Rightarrow> 10 | Some n \<Rightarrow> n)
   \<and> ((\<forall>params page. flowService_list env params = Inr page \<longrightarrow>
          length (page_data page) \<le> nat (list_limit params)) \<longrightarrow>
        query_limit query = None \<longrightarrow>
        (\<forall>page. snd (list_handler env caller query) = Inr page \<longrightarrow> length (page_data page) \<le> 10))"
proof (intro conjI impI allI)
  show "fst (list_handler env caller query) = [Call_flowService_list (list_params caller query)]"
    by (simp add: list_handler_def call_def)
  show "snd (list_handler env caller query) =
       (case flowService_list env (list_params caller query) of
          Inl e \<Rightarrow> Inl (Thrown e) | Inr page \<Rightarrow> Inr page)"
    by (simp add: list_handler_def call_def)
  show "list_limit (list_params caller query) = (case query_limit query of None \<Rightarrow> 10 | Some n \<Rightarrow> n)"
    by (simp add: list_params_def DEFAULT_PAGE_SIZE_def split: option.splits)
next
  fix page
  assume contract: "\<forall>params page. flowService_list env params = Inr page \<longrightarrow>
          length (page_data page) \<le> nat (list_limit params)"
    and none: "query_limit query = None"
    and res: "snd (list_handler env caller query) = Inr page"
  from res have "flowService_list env (list_params caller query) = Inr page"
    by (simp add: list_handler_def call_def split: sum.splits)
  with contract have "length (page_data page) \<le> nat (list_limit (list_params caller query))"
    by blast
  with none show "length (page_data page) \<le> 10"
    by (simp add: list_params_def DEFAULT_PAGE_SIZE_def)
qed

text \<open>Witness of C5: a query without a limit over 25 stored flows gets a page of 10.\<close>

theorem list_uses_default_page_size_witness:
  "query_limit query_without_limit = None
   \<and> (case snd (list_handler (sample_env ''ADMIN'' grant_all (Inr flow_edited_by_bob) 0)
                  user_alice query_without_limit) of
        Inl e \<Rightarrow> False
      | Inr page \<Rightarrow> length (page_data page) = 10)
   \<and> fst (list_handler (sample_env ''ADMIN'' grant_all (Inr flow_edited_by_bob) 0)
            user_alice query_without_limit)
      = [Call_flowService_list
           \<lparr>list_projectId = ''project-1'', list_folderId = None, list_cursorRequest = None,
            list_limit = 10, list_status = None\<rparr>]"
proof -
  let ?env = "sample_env ''ADMIN'' grant_all (Inr flow_edited_by_bob) 0 :: string collaborators"
  have contract: "\<forall>params page. flowService_list ?env params = Inr page \<longrightarrow>
          length (page_data page) \<le> nat (list_limit params)"
    by (auto simp: sample_env_def)
  have none: "query_limit query_without_limit = None"
    by (simp add: query_without_limit_def)
  have r: "snd (list_handler ?env user_alice query_without_limit) =
      Inr \<lparr>page_data = replicate 10 flow_edited_by_bob, page_next = None, page_previous = None\<rparr>"
    by (simp add: list_handler_def call_def list_params_def DEFAULT_PAGE_SIZE_def sample_env_def
        query_without_limit_def)
  from list_uses_default_page_size [of ?env user_alice query_without_limit] contract none r
  have "length (page_data \<lparr>page_data = replicate 10 flow_edited_by_bob, page_next = None,
      page_previous = None\<rparr>) \<le> 10"
    by blast
  moreover from list_uses_default_page_size [of ?env user_alice query_without_limit]
  have "fst (list_handler ?env user_alice query_without_limit)
      = [Call_flowService_list (list_params user_alice query_without_limit)]"
    by blast
  ultimately show ?thesis
    using none r by (simp add: list_params_def DEFAULT_PAGE_SIZE_def query_without_limit_def user_alice_def)
qed

section \<open>Properties of the color picker\<close>

text \<open>
  C7, as stated, fails: every confirm is claimed to update the saved colour and to close
  the popover. With a save callback that throws, the callback is invoked with the
  in-progress colour, and the saved colour and the popover stay as they were.
\<close>

theorem confirm_with_throwing_save_keeps_state:
  "handle failing_save_props ConfirmClick picker_showing = (picker_showing, [OnSave ''#12AB34''])
   \<and> color picker_showing = ''#12AB34''
   \<and> savedColor picker_showing = ''#FFFFFF''
   \<and> popover_open picker_showing = True"
  by (simp add: confirm_onClick_def failing_save_props_def picker_showing_def)

text \<open>
  C7, amended: on every click on the confirm button, a save callback that the caller
  supplied is invoked exactly once, with the in-progress colour (the value the input
  displays), and no other callback is; when the callback returns, or when none was
  supplied, the saved colour becomes that value, the popover is closed and the
  in-progress colour is kept; when the callback throws, the state is left as it was.
\<close>

theorem confirm_saves_once_and_closes:
  "snd (handle props ConfirmClick s) =
     (case onSave props of None \<Rightarrow> [] | Some save \<Rightarrow> [OnSave (color s)])
   \<and> fst (handle props ConfirmClick s) =
       (if save_returns props (color s)
        then \<lparr>color = color s, savedColor = color s, popover_open = False\<rparr>
        else s)"
  by (cases s) (simp add: confirm_onClick_def save_returns_def split: option.splits sum.splits)

text \<open>
  Witness of C7, amended: the confirm click on an open picker that shows \<open>#12AB34\<close>, with a
  save callback that returns and without a save callback.
\<close>

theorem confirm_saves_once_and_closes_witness:
  "handle white_picker_props ConfirmClick picker_showing
     = (\<lparr>color = ''#12AB34'', savedColor = ''#12AB34'', popover_open = False\<rparr>, [OnSave ''#12AB34''])
   \<and> handle bare_picker_props ConfirmClick picker_showing
     = (\<lparr>color = ''#12AB34'', savedColor = ''#12AB34'', popover_open = False\<rparr>, [])"
  using confirm_saves_once_and_closes [of white_picker_props picker_showing]
    confirm_saves_once_and_closes [of bare_picker_props picker_showing]
  by (simp add: prod_eq_iff save_returns_def white_picker_props_def bare_picker_props_def
      picker_showing_def)

text \<open>Every handler but the confirm click leaves the saved colour and invokes no save.\<close>

lemma handle_not_confirm:
  "e \<noteq> ConfirmClick \<Longrightarrow>
   savedColor (fst (handle props e s)) = savedColor s
   \<and> set (snd (handle props e s)) \<subseteq> {OnClose}"
  by (cases e) (auto split: option.splits)

lemma run_without_confirm:
  "ConfirmClick \<notin> set es \<Longrightarrow>
   savedColor (fst (run props es sl)) = savedColor (fst sl)
   \<and> set (snd (run props es sl)) \<subseteq> set (snd sl) \<union> {OnClose}"
proof (induction es arbitrary: sl)
  case Nil
  then show ?case by auto
next
  case (Cons e es)
  then have ne: "e \<noteq> ConfirmClick" and rest: "ConfirmClick \<notin> set es"
    by auto
  obtain s' l' where h: "handle props e (fst sl) = (s', l')"
    by (cases "handle props e (fst sl)")
  from handle_not_confirm [OF ne, of props "fst sl"] h
  have s: "savedColor s' = savedColor (fst sl)" and l: "set l' \<subseteq> {OnClose}"
    by simp_all
  from Cons.IH [OF rest, of "(s', snd sl @ l')"] s l h show ?case
    by auto
qed

text \<open>
  C8: after any sequence of events without a confirm click (changes of the picker and of
  the text input, opening and closing of the popover, blur of the trigger) the saved
  colour is the one before the sequence and the save callback has not been invoked.
\<close>

theorem unconfirmed_changes_keep_saved_color:
  "ConfirmClick \<notin> set es \<Longrightarrow>
     savedColor (fst (run props es (s, []))) = savedColor s
   \<and> (\<forall>v. OnSave v \<notin> set (snd (run props es (s, []))))"
  using run_without_confirm [of es props "(s, [])"] by auto

text \<open>
  Witness of C8: the picker is opened, a colour is picked, another one is typed, and the
  popover is closed by a click elsewhere.
\<close>

theorem unconfirmed_changes_keep_saved_color_witness:
  "ConfirmClick \<notin> set [TriggerClick, PickerChange ''#FF0000'', InputChange ''#00FF00'',
       PopoverOpenChange False, TriggerBlur]
   \<and> savedColor (fst (run white_picker_props
        [TriggerClick, PickerChange ''#FF0000'', InputChange ''#00FF00'', PopoverOpenChange False,
         TriggerBlur]
        (initial_state white_picker_props, []))) = ''#FFFFFF''
   \<and> color (fst (run white_picker_props
        [TriggerClick, PickerChange ''#FF0000'', InputChange ''#00FF00'', PopoverOpenChange False,
         TriggerBlur]
        (initial_state white_picker_props, []))) = ''#00FF00''
   \<and> OnSave ''#00FF00'' \<notin> set (snd (run white_picker_props
        [TriggerClick, PickerChange ''#FF0000'', InputChange ''#00FF00'', PopoverOpenChange False,
         TriggerBlur]
        (initial_state white_picker_props, [])))"
  using unconfirmed_changes_keep_saved_color [of "[TriggerClick, PickerChange ''#FF0000'',
       InputChange ''#00FF00'', PopoverOpenChange False, TriggerBlur]" white_picker_props
       "initial_state white_picker_props"]
  by (simp add: initial_state_def white_picker_props_def default_or_white_def)

text \<open>
  C9: the foreground of the confirm button is the dark colour on the in-progress colour
  \<open>#FFFFFF\<close> and the light colour on \<open>#000000\<close>: the two differ.
\<close>

theorem confirm_foreground_differs_on_white_and_black:
  "style_color (confirm_button_style (s\<lparr>color := ''#FFFFFF''\<rparr>)) = Some ''#000000''
   \<and> style_color (confirm_button_style (s\<lparr>color := ''#000000''\<rparr>)) = Some ''#FFFFFF''
   \<and> style_color (confirm_button_style (s\<lparr>color := ''#FFFFFF''\<rparr>))
       \<noteq> style_color (confirm_button_style (s\<lparr>color := ''#000000''\<rparr>))"
  by (simp add: confirm_button_style_def hex_byte_def hex_value_def brightness_times_1000_def
      contrast_threshold_def fgDarkColor_def fgLightColor_def)

section \<open>The conflict guard on one's own edit\<close>

text \<open>
  C10: the conflict guard returns, whatever the clock and the \<open>updated\<close> timestamp of the
  version, when the version's \<open>updatedBy\<close> is absent or is the acting user's id.
\<close>

theorem own_or_unedited_version_passes_guard:
  "updatedBy (version flow) = None \<or> updatedBy (version flow) = Some userId \<Longrightarrow>
     assertThatFlowIsNotBeingUsed env flow userId = ret ()"
  by (auto simp: assertThatFlowIsNotBeingUsed_def Let_def)

text \<open>Witness of C10: bob updates again at the very instant of his own last edit.\<close>

theorem own_or_unedited_version_passes_guard_witness:
  "(updatedBy (version flow_edited_by_bob) = None \<or> updatedBy (version flow_edited_by_bob) = Some ''bob'')
   \<and> dayjs_now (sample_env ''ADMIN'' grant_all (Inr flow_edited_by_bob) 0) = updated (version flow_edited_by_bob)
   \<and> assertThatFlowIsNotBeingUsed (sample_env ''ADMIN'' grant_all (Inr flow_edited_by_bob) 0)
        flow_edited_by_bob ''bob'' = ([], Inr ())"
proof -
  have h: "updatedBy (version flow_edited_by_bob) = None \<or> updatedBy (version flow_edited_by_bob) = Some ''bob''"
    by (simp add: flow_edited_by_bob_def)
  from own_or_unedited_version_passes_guard [OF h, of "sample_env ''ADMIN'' grant_all (Inr flow_edited_by_bob) 0"] h
  show ?thesis
    by (simp add: ret_def sample_env_def flow_edited_by_bob_def)
qed

end
